theory Spec2Isabelle
  imports Complex_Main "HOL-Library.AList" "HOL-Library.Char_ord"
begin

section \<open>The sports-betting GUI wizard: data model\<close>

text \<open>
  The wizard keeps all of its data in one module-level dictionary \<^verbatim>\<open>state\<close>
  (\<^verbatim>\<open>dict[str, Any]\<close>). It exists in two variants: the modular one
  (\<^verbatim>\<open>_data.py\<close>, \<^verbatim>\<open>_gui.py\<close>) and the monolithic one (\<^verbatim>\<open>app.py\<close>).
  Functions of \<^verbatim>\<open>app.py\<close> whose names clash with the modular variant carry the
  prefix \<open>app_\<close>.

  A dictionary is an association list with Python's semantics: \<open>AList.update\<close>
  replaces the value of a present key in place and appends an absent key,
  \<open>AList.delete\<close> removes a key, \<open>map_of\<close> looks a key up.
\<close>

subsection \<open>Python values\<close>

datatype scalar = SNone | SBool bool | SInt int | SStr string

type_synonym row = "(string \<times> scalar) list"

text \<open>A pandas DataFrame: its column names and its records (\<^verbatim>\<open>to_dict('records')\<close>).\<close>

datatype frame = DataFrame "string list" "row list"

fun frame_columns :: "frame \<Rightarrow> string list" where
  "frame_columns (DataFrame cs rs) = cs"

fun frame_records :: "frame \<Rightarrow> row list" where
  "frame_records (DataFrame cs rs) = rs"

datatype loader_class = SoccerDataLoader | BaseDataLoader

type_synonym param_grid = "(string \<times> scalar list) list list"

text \<open>A dataloader object: its class and the \<^verbatim>\<open>param_grid\<close> it was constructed with.\<close>

datatype loader = DataLoader loader_class param_grid

text \<open>
  What every NiceGUI element carries: visibility, enabledness and its props.
  Classes, styles, labels, icons and the bound callbacks are markup and are not modelled.
\<close>

record attrs =
  visible :: bool
  enabled :: bool
  props :: "string list"

definition new_attrs :: attrs where
  "new_attrs = \<lparr>visible = True, enabled = True, props = []\<rparr>"

datatype val =
    Toggle attrs "string list" "string option"
  | Radio attrs "string list" "string option"
  | Button attrs
  | Table attrs "string option" "row list" "row list" "row list"
  | Select attrs "(string option \<times> string) list" "string option"
  | Number attrs "real option"
  | Dicts "row list"
  | Strs "string list"
  | OddsMapping "(string option \<times> string) list"
  | Loader loader
  | Frame frame
  | PyNone

datatype exn =
    KeyError string
  | IndexError
  | StopIteration
  | AttributeError string
  | TypeError
  | ValueError
  | External string

datatype effect =
    Notify string
  | Download string string
  | SpinnerShown
  | SpinnerHidden
  | Uncaught exn

record world =
  state :: "(string \<times> val) list"
  effects :: "effect list"

text \<open>
  A statement runs on the world and either completes or raises; the world it returns is
  the world as the statement left it (mutations made before a raise persist).
\<close>

type_synonym stmt = "world \<Rightarrow> exn option \<times> world"

fun steps :: "stmt list \<Rightarrow> stmt" where
  "steps [] w = (None, w)"
| "steps (f # fs) w = (case f w of (None, w') \<Rightarrow> steps fs w' | (Some e, w') \<Rightarrow> (Some e, w'))"

definition skip :: stmt where
  "skip w = (None, w)"

definition raise :: "exn \<Rightarrow> stmt" where
  "raise e w = (Some e, w)"

definition emit :: "effect \<Rightarrow> stmt" where
  "emit x w = (None, w\<lparr>effects := effects w @ [x]\<rparr>)"

definition has_key :: "string \<Rightarrow> world \<Rightarrow> bool" where
  "has_key k w = (map_of (state w) k \<noteq> None)"

text \<open>\<^verbatim>\<open>state[k] = v\<close>\<close>

definition setitem :: "string \<Rightarrow> val \<Rightarrow> stmt" where
  "setitem k v w = (None, w\<lparr>state := AList.update k v (state w)\<rparr>)"

text \<open>\<^verbatim>\<open>state.pop(k)\<close>\<close>

definition pop :: "string \<Rightarrow> stmt" where
  "pop k w = (if has_key k w then (None, w\<lparr>state := AList.delete k (state w)\<rparr>)
              else (Some (KeyError k), w))"

text \<open>Read \<^verbatim>\<open>state[k]\<close> and go on with its value; \<^verbatim>\<open>KeyError\<close> when the key is absent.\<close>

definition with_item :: "string \<Rightarrow> (val \<Rightarrow> stmt) \<Rightarrow> stmt" where
  "with_item k f w = (case map_of (state w) k of None \<Rightarrow> (Some (KeyError k), w) | Some v \<Rightarrow> f v w)"

subsection \<open>Element attributes and values\<close>

fun get_attrs :: "val \<Rightarrow> attrs option" where
  "get_attrs (Toggle a os v) = Some a"
| "get_attrs (Radio a os v) = Some a"
| "get_attrs (Button a) = Some a"
| "get_attrs (Table a t cs rs sel) = Some a"
| "get_attrs (Select a os v) = Some a"
| "get_attrs (Number a v) = Some a"
| "get_attrs _ = None"

fun put_attrs :: "attrs \<Rightarrow> val \<Rightarrow> val" where
  "put_attrs a (Toggle _ os v) = Toggle a os v"
| "put_attrs a (Radio _ os v) = Radio a os v"
| "put_attrs a (Button _) = Button a"
| "put_attrs a (Table _ t cs rs sel) = Table a t cs rs sel"
| "put_attrs a (Select _ os v) = Select a os v"
| "put_attrs a (Number _ v) = Number a v"
| "put_attrs a x = x"

text \<open>A method of the element stored under \<open>k\<close> that changes its attributes.\<close>

definition update_attrs :: "string \<Rightarrow> string \<Rightarrow> (attrs \<Rightarrow> attrs) \<Rightarrow> stmt" where
  "update_attrs k meth f =
     with_item k (\<lambda>v. case get_attrs v of
                         None \<Rightarrow> raise (AttributeError meth)
                       | Some a \<Rightarrow> setitem k (put_attrs (f a) v))"

definition set_visibility :: "string \<Rightarrow> bool \<Rightarrow> stmt" where
  "set_visibility k b = update_attrs k ''set_visibility'' (\<lambda>a. a\<lparr>visible := b\<rparr>)"

definition set_enabled :: "string \<Rightarrow> bool \<Rightarrow> stmt" where
  "set_enabled k b = update_attrs k ''set_enabled'' (\<lambda>a. a\<lparr>enabled := b\<rparr>)"

definition add_props :: "string \<Rightarrow> string \<Rightarrow> stmt" where
  "add_props k p = update_attrs k ''props'' (\<lambda>a. a\<lparr>props := props a @ [p]\<rparr>)"

text \<open>The \<^verbatim>\<open>.value\<close> of a choice element (toggle, radio, select).\<close>

fun choice_value :: "val \<Rightarrow> exn + string option" where
  "choice_value (Toggle a os v) = Inr v"
| "choice_value (Radio a os v) = Inr v"
| "choice_value (Select a os v) = Inr v"
| "choice_value _ = Inl (AttributeError ''value'')"

fun number_value :: "val \<Rightarrow> exn + real option" where
  "number_value (Number a v) = Inr v"
| "number_value _ = Inl (AttributeError ''value'')"

fun set_choice :: "string option \<Rightarrow> val \<Rightarrow> val option" where
  "set_choice x (Toggle a os v) = Some (Toggle a os x)"
| "set_choice x (Radio a os v) = Some (Radio a os x)"
| "set_choice x (Select a os v) = Some (Select a os x)"
| "set_choice x _ = None"

text \<open>\<^verbatim>\<open>state[k].set_value(x)\<close>\<close>

definition set_value :: "string \<Rightarrow> string option \<Rightarrow> stmt" where
  "set_value k x =
     with_item k (\<lambda>v. case set_choice x v of
                         None \<Rightarrow> raise (AttributeError ''set_value'')
                       | Some v' \<Rightarrow> setitem k v')"

text \<open>\<^verbatim>\<open>state['mode_ui'].value == m\<close>, as a guard inside a statement.\<close>

definition with_mode :: "(string option \<Rightarrow> stmt) \<Rightarrow> stmt" where
  "with_mode f =
     with_item ''mode_ui'' (\<lambda>v. case choice_value v of Inl e \<Rightarrow> raise e | Inr m \<Rightarrow> f m)"

subsection \<open>Strings\<close>

definition is_lower :: "char \<Rightarrow> bool" where
  "is_lower c = (CHR ''a'' \<le> c \<and> c \<le> CHR ''z'')"

definition is_upper :: "char \<Rightarrow> bool" where
  "is_upper c = (CHR ''A'' \<le> c \<and> c \<le> CHR ''Z'')"

definition to_upper :: "char \<Rightarrow> char" where
  "to_upper c = (if is_lower c then char_of (of_char c - (32::nat)) else c)"

definition to_lower :: "char \<Rightarrow> char" where
  "to_lower c = (if is_upper c then char_of (of_char c + (32::nat)) else c)"

text \<open>
  \<^verbatim>\<open>str.title()\<close> on ASCII: a letter that follows a letter is lowercased, any other letter
  is uppercased. The flag says whether the previous character was a letter.
\<close>

fun title_from :: "bool \<Rightarrow> string \<Rightarrow> string" where
  "title_from p [] = []"
| "title_from p (c # cs) =
     (if is_lower c \<or> is_upper c
      then (if p then to_lower c else to_upper c) # title_from True cs
      else c # title_from False cs)"

definition title :: "string \<Rightarrow> string" where
  "title s = title_from False s"

text \<open>Put a character in front of the first token of a split.\<close>

fun push_char :: "char \<Rightarrow> string list \<Rightarrow> string list" where
  "push_char c [] = [[c]]"
| "push_char c (t # ts) = (c # t) # ts"

text \<open>\<^verbatim>\<open>s.split('_')\<close> and \<^verbatim>\<open>re.split('_', s)\<close>\<close>

fun split_us :: "string \<Rightarrow> string list" where
  "split_us [] = [[]]"
| "split_us (c # cs) = (if c = CHR ''_'' then [] # split_us cs else push_char c (split_us cs))"

text \<open>\<^verbatim>\<open>re.split('__', s)\<close>\<close>

fun split_us2 :: "string \<Rightarrow> string list" where
  "split_us2 [] = [[]]"
| "split_us2 [c] = [[c]]"
| "split_us2 (c # d # cs) =
     (if c = CHR ''_'' \<and> d = CHR ''_'' then [] # split_us2 cs
      else push_char c (split_us2 (d # cs)))"

text \<open>\<^verbatim>\<open>re.split('__?', s)\<close>: one underscore, or two when a second one follows.\<close>

fun split_us12 :: "string \<Rightarrow> string list" where
  "split_us12 [] = [[]]"
| "split_us12 [c] = (if c = CHR ''_'' then [[], []] else [[c]])"
| "split_us12 (c # d # cs) =
     (if c = CHR ''_'' then (if d = CHR ''_'' then [] # split_us12 cs else [] # split_us12 (d # cs))
      else push_char c (split_us12 (d # cs)))"

text \<open>\<^verbatim>\<open>sep.join(xs)\<close>\<close>

fun join :: "string \<Rightarrow> string list \<Rightarrow> string" where
  "join sep [] = []"
| "join sep [x] = x"
| "join sep (x # y # ys) = x @ sep @ join sep (y # ys)"


section \<open>The modular variant: \<^verbatim>\<open>_data.py\<close> and \<^verbatim>\<open>_gui.py\<close>\<close>

subsection \<open>The external data loader\<close>

definition DATALOADERS :: "(string \<times> loader_class) list" where
  "DATALOADERS =
     [(''Soccer'', SoccerDataLoader), (''NBA'', BaseDataLoader),
      (''NFL'', BaseDataLoader), (''NHL'', BaseDataLoader)]"

text \<open>\<^verbatim>\<open>DATALOADERS[name]\<close>, where \<open>name\<close> is the value of the sport radio (possibly \<^verbatim>\<open>None\<close>).\<close>

definition dataloader_class :: "string option \<Rightarrow> exn + loader_class" where
  "dataloader_class name =
     (case name of
        None \<Rightarrow> Inl (KeyError ''None'')
      | Some n \<Rightarrow> (case map_of DATALOADERS n of None \<Rightarrow> Inl (KeyError n) | Some c \<Rightarrow> Inr c))"

text \<open>
  The calls that run in the worker pool (\<^verbatim>\<open>run.io_bound\<close>), with their arguments, and
  what they return. A call may also raise; then the \<^verbatim>\<open>await\<close> raises.
\<close>

datatype request =
    GetAllParams loader_class
  | GetOddsTypes loader
  | ExtractTrainData loader "string option" "real option"
  | ExtractFixturesData loader

datatype response =
    Params "row list"
  | OddsTypes "string list"
  | TrainData frame frame "frame option"
  | FixturesData frame "frame option" "frame option"

text \<open>
  An \<^verbatim>\<open>async\<close> handler runs until its next \<^verbatim>\<open>await\<close>: it has finished, has raised, or
  waits for a call, to be resumed at the named continuation with the call's result.
\<close>

datatype cont =
    K_select_sport
  | K_select_filter
  | K_select_extraction_train
  | K_select_extraction_fixtures
  | K_app_select_sport
  | K_app_select_filter
  | K_app_select_extraction_train
  | K_app_select_extraction_fixtures

datatype outcome = Finished | Failed exn | Awaiting request cont

definition finish :: "exn option \<times> world \<Rightarrow> outcome \<times> world" where
  "finish r = (case r of (None, w) \<Rightarrow> (Finished, w) | (Some e, w) \<Rightarrow> (Failed e, w))"

subsection \<open>\<^verbatim>\<open>set_buttons_visibility\<close>\<close>

definition buttons_ui :: "string list" where
  "buttons_ui = [''arrow_sport_ui'', ''arrow_filter_ui'', ''arrow_extraction_ui'', ''download_ui'']"

text \<open>\<^verbatim>\<open>xs.index(x)\<close>: the first position of \<open>x\<close>.\<close>

fun list_index :: "'a list \<Rightarrow> 'a \<Rightarrow> nat option" where
  "list_index [] x = None"
| "list_index (y # ys) x = (if y = x then Some 0 else map_option Suc (list_index ys x))"

definition set_buttons_visibility :: "int \<Rightarrow> stmt" where
  "set_buttons_visibility index =
     steps (map (\<lambda>button_ui.
                   case list_index buttons_ui button_ui of
                     None \<Rightarrow> raise ValueError
                   | Some i \<Rightarrow> set_visibility button_ui (index = int i))
                buttons_ui)"

subsection \<open>The refreshable UI builders\<close>

text \<open>
  \<^verbatim>\<open>f.refresh()\<close> of a \<^verbatim>\<open>ui.refreshable\<close> runs \<open>f\<close> again, so a refresh is a call.
\<close>

definition create_mode_ui :: stmt where
  "create_mode_ui = setitem ''mode_ui'' (Toggle new_attrs [''Data'', ''Betting''] None)"

definition create_cancel_ui :: stmt where
  "create_cancel_ui =
     with_mode (\<lambda>m. if m = Some ''Data'' \<or> m = Some ''Betting''
                     then setitem ''cancel_ui'' (Button new_attrs) else skip)"

definition create_sport_ui :: stmt where
  "create_sport_ui =
     with_mode (\<lambda>m. if m = Some ''Data''
                     then setitem ''sport_ui''
                            (Radio (new_attrs\<lparr>props := [''inline'']\<rparr>) (map fst DATALOADERS) None)
                     else skip)"

definition create_filter_ui :: stmt where
  "create_filter_ui =
     with_mode (\<lambda>m w.
       if m = Some ''Data'' \<and> has_key ''filter_columns'' w \<and> has_key ''filter_rows'' w
       then with_item ''filter_columns'' (\<lambda>cols.
            with_item ''filter_rows'' (\<lambda>rows.
              case (cols, rows) of
                (Dicts cs, Dicts rs) \<Rightarrow> setitem ''filter_ui'' (Table new_attrs None cs rs [])
              | _ \<Rightarrow> raise TypeError)) w
       else skip w)"

text \<open>\<^verbatim>\<open>state['odds_types'][0]\<close>\<close>

definition first_odds_type :: "string list \<Rightarrow> exn + string" where
  "first_odds_type odds_types = (case odds_types of [] \<Rightarrow> Inl IndexError | t # _ \<Rightarrow> Inr t)"

definition create_extraction_ui :: stmt where
  "create_extraction_ui =
     with_mode (\<lambda>m w.
       if m = Some ''Data'' \<and> has_key ''odds_types_mapping'' w \<and> has_key ''odds_types'' w
          \<and> has_key ''dataloader'' w
       then steps
         [with_item ''odds_types_mapping'' (\<lambda>mapping.
          with_item ''odds_types'' (\<lambda>odds_types.
            case (mapping, odds_types) of
              (OddsMapping mp, Strs ts) \<Rightarrow>
                (case first_odds_type ts of
                   Inl e \<Rightarrow> raise e
                 | Inr t \<Rightarrow> setitem ''odds_type_ui'' (Select new_attrs mp (Some t)))
            | _ \<Rightarrow> raise TypeError)),
          setitem ''drop_na_thres_ui'' (Number new_attrs (Some 0))] w
       else skip w)"

definition create_control_ui :: stmt where
  "create_control_ui =
     with_mode (\<lambda>m. if m = Some ''Data''
                     then steps
                       [setitem ''arrow_sport_ui'' (Button new_attrs),
                        setitem ''arrow_filter_ui'' (Button new_attrs),
                        setitem ''arrow_extraction_ui'' (Button new_attrs),
                        setitem ''download_ui'' (Button new_attrs)]
                     else skip)"

subsection \<open>\<^verbatim>\<open>create_data_ui\<close>\<close>

definition max_n_rows :: nat where
  "max_n_rows = 10000"

definition input_label :: "string \<Rightarrow> string" where
  "input_label col = join '' '' (map title (split_us12 col))"

definition output_label :: "string \<Rightarrow> string" where
  "output_label col =
     join '' '' (split_us (join '' ('' (map title (drop 1 (split_us2 col))) @ '')''))"

definition odds_label :: "string \<Rightarrow> string" where
  "odds_label col =
     join '' '' (split_us (join '' ('' (map title (drop 2 (split_us2 col))) @ '')''))"

definition data_column :: "(string \<Rightarrow> string) \<Rightarrow> string \<Rightarrow> row" where
  "data_column label col =
     [(''name'', SStr col), (''label'', SStr (label col)), (''field'', SStr col),
      (''required'', SBool True)]"

definition data_columns :: "(string \<Rightarrow> string) \<Rightarrow> frame \<Rightarrow> row list" where
  "data_columns label f = map (data_column label) (frame_columns f)"

definition data_rows :: "frame \<Rightarrow> row list" where
  "data_rows f = take max_n_rows (frame_records f)"

definition with_frame :: "string \<Rightarrow> (frame \<Rightarrow> stmt) \<Rightarrow> stmt" where
  "with_frame k f =
     with_item k (\<lambda>v. case v of Frame fr \<Rightarrow> f fr | _ \<Rightarrow> raise (AttributeError ''columns''))"

text \<open>A frame that may be \<^verbatim>\<open>None\<close> (the odds tables).\<close>

definition with_opt_frame :: "string \<Rightarrow> (frame option \<Rightarrow> stmt) \<Rightarrow> stmt" where
  "with_opt_frame k f =
     with_item k (\<lambda>v. case v of Frame fr \<Rightarrow> f (Some fr) | PyNone \<Rightarrow> f None
                        | _ \<Rightarrow> raise (AttributeError ''columns''))"

definition odds_table :: "frame option \<Rightarrow> val" where
  "odds_table o_frame =
     (case o_frame of
        None \<Rightarrow> Table new_attrs (Some ''Odds'') [] [] []
      | Some f \<Rightarrow> Table new_attrs (Some ''Odds'') (data_columns odds_label f) (data_rows f) [])"

definition data_keys :: "string list" where
  "data_keys = [''X_train'', ''Y_train'', ''O_train'', ''X_fix'', ''Y_fix'', ''O_fix'']"

definition create_data_ui :: stmt where
  "create_data_ui =
     with_mode (\<lambda>m w.
       if m = Some ''Data'' \<and> list_all (\<lambda>k. has_key k w) data_keys
       then steps
         [with_frame ''X_train'' (\<lambda>x. setitem ''X_train_ui''
            (Table new_attrs (Some ''Input'') (data_columns input_label x) (data_rows x) [])),
          with_frame ''Y_train'' (\<lambda>y. setitem ''Y_train_ui''
            (Table new_attrs (Some ''Output'') (data_columns output_label y) (data_rows y) [])),
          with_opt_frame ''O_train'' (\<lambda>od. setitem ''O_train_ui'' (odds_table od)),
          with_frame ''X_fix'' (\<lambda>x. setitem ''X_fix_ui''
            (Table new_attrs (Some ''Input'') (data_columns input_label x) (data_rows x) [])),
          with_frame ''Y_train'' (\<lambda>y. setitem ''Y_fix_ui''
            (Table new_attrs (Some ''Output'') (data_columns output_label y) [] [])),
          with_opt_frame ''O_fix'' (\<lambda>od. setitem ''O_fix_ui'' (odds_table od))] w
       else skip w)"


subsection \<open>\<^verbatim>\<open>select_sport\<close>\<close>

definition id_column :: row where
  "id_column =
     [(''name'', SStr ''id''), (''label'', SStr ''ID''), (''field'', SStr ''id''),
      (''required'', SBool True), (''classes'', SStr ''hidden''),
      (''headerClasses'', SStr ''hidden'')]"

definition param_column :: "string \<Rightarrow> row" where
  "param_column name =
     [(''name'', SStr name), (''label'', SStr (title name)), (''field'', SStr name),
      (''required'', SBool False), (''sortable'', SBool True)]"

text \<open>\<^verbatim>\<open>[{**param, 'id': num + 1} for num, param in enumerate(all_params)]\<close>\<close>

definition filter_rows_of :: "row list \<Rightarrow> row list" where
  "filter_rows_of all_params =
     map (\<lambda>(num, param). AList.update ''id'' (SInt (int num + 1)) param)
         (List.enumerate 0 all_params)"

text \<open>\<^verbatim>\<open>state[k] += xs\<close> on a list of dictionaries.\<close>

definition extend_item :: "string \<Rightarrow> row list \<Rightarrow> stmt" where
  "extend_item k xs =
     with_item k (\<lambda>v. case v of Dicts ys \<Rightarrow> setitem k (Dicts (ys @ xs)) | _ \<Rightarrow> raise TypeError)"

text \<open>
  Up to the \<^verbatim>\<open>await\<close>. The worker evaluates \<^verbatim>\<open>DATALOADERS[state['sport_ui'].value]\<close>;
  a \<^verbatim>\<open>KeyError\<close> there is raised by the \<^verbatim>\<open>await\<close>.
\<close>

definition select_sport :: "world \<Rightarrow> outcome \<times> world" where
  "select_sport w =
     (case map_of (state w) ''sport_ui'' of
        None \<Rightarrow> (Failed (KeyError ''sport_ui''), w)
      | Some v \<Rightarrow>
        (case choice_value v of
           Inl e \<Rightarrow> (Failed e, w)
         | Inr dataloader_name \<Rightarrow>
             if dataloader_name = Some ''Soccer'' then
               (case dataloader_class dataloader_name of
                  Inl e \<Rightarrow> (Failed e, snd (emit SpinnerShown w))
                | Inr c \<Rightarrow> (Awaiting (GetAllParams c) K_select_sport, snd (emit SpinnerShown w)))
             else if dataloader_name \<noteq> Some ''Soccer'' \<and> dataloader_name \<noteq> None then
               finish (emit (Notify ''Soccer is the only currently available sport.'') w)
             else
               finish (emit (Notify ''Please select a sport to proceed.'') w)))"

text \<open>From the \<^verbatim>\<open>await\<close> on, with the parameters the call returned.\<close>

definition select_sport_resume :: "row list \<Rightarrow> stmt" where
  "select_sport_resume all_params =
     steps
       [emit SpinnerHidden,
        (case all_params of
           [] \<Rightarrow> raise StopIteration
         | param # _ \<Rightarrow>
             steps
               [setitem ''filter_columns'' (Dicts [id_column]),
                extend_item ''filter_columns'' (map param_column (map fst param)),
                setitem ''filter_rows'' (Dicts (filter_rows_of all_params)),
                create_filter_ui,
                create_control_ui,
                set_buttons_visibility 1,
                set_enabled ''sport_ui'' False])]"

subsection \<open>\<^verbatim>\<open>select_filter\<close>\<close>

text \<open>
  \<^verbatim>\<open>{name: [val] for name, val in param.items() if name != 'id'}\<close>; the keys of a
  dictionary are distinct, so every item that passes the test gives one entry, in order.
\<close>

definition grid_of_row :: "row \<Rightarrow> (string \<times> scalar list) list" where
  "grid_of_row param = map (\<lambda>(name, v). (name, [v])) (filter (\<lambda>(name, v). name \<noteq> ''id'') param)"

definition param_grid_of :: "row list \<Rightarrow> param_grid" where
  "param_grid_of selected = map grid_of_row selected"

fun table_selected :: "val \<Rightarrow> exn + row list" where
  "table_selected (Table a t cs rs sel) = Inr sel"
| "table_selected _ = Inl (AttributeError ''selected'')"

text \<open>\<^verbatim>\<open>" ".join([token.title() for token in odds_type.split('_')])\<close>\<close>

definition odds_type_label :: "string \<Rightarrow> string" where
  "odds_type_label odds_type = join '' '' (map title (split_us odds_type))"

text \<open>The dictionary comprehension over the odds types, then \<^verbatim>\<open>.update({None: 'No Odds'})\<close>.\<close>

definition odds_types_mapping_of :: "string list \<Rightarrow> (string option \<times> string) list" where
  "odds_types_mapping_of odds_types =
     foldl (\<lambda>d odds_type. AList.update (Some odds_type) (odds_type_label odds_type) d) [] odds_types"

definition add_no_odds :: stmt where
  "add_no_odds =
     with_item ''odds_types_mapping'' (\<lambda>v.
       case v of
         OddsMapping mp \<Rightarrow> setitem ''odds_types_mapping'' (OddsMapping (AList.update None ''No Odds'' mp))
       | _ \<Rightarrow> raise (AttributeError ''update''))"

definition with_loader :: "world \<Rightarrow> (loader \<Rightarrow> outcome \<times> world) \<Rightarrow> outcome \<times> world" where
  "with_loader w f =
     (case map_of (state w) ''dataloader'' of
        None \<Rightarrow> (Failed (KeyError ''dataloader''), w)
      | Some (Loader l) \<Rightarrow> f l
      | Some _ \<Rightarrow> (Failed (AttributeError ''dataloader''), w))"

text \<open>
  Up to the \<^verbatim>\<open>await\<close>: the dataloader is constructed and stored before the odds types
  are fetched.
\<close>

definition select_filter :: "world \<Rightarrow> outcome \<times> world" where
  "select_filter w =
     (case map_of (state w) ''filter_ui'' of
        None \<Rightarrow> (Failed (KeyError ''filter_ui''), w)
      | Some t \<Rightarrow>
        (case table_selected t of
           Inl e \<Rightarrow> (Failed e, w)
         | Inr selected \<Rightarrow>
             if selected \<noteq> [] then
               (case map_of (state w) ''sport_ui'' of
                  None \<Rightarrow> (Failed (KeyError ''sport_ui''), w)
                | Some v \<Rightarrow>
                  (case choice_value v of
                     Inl e \<Rightarrow> (Failed e, w)
                   | Inr name \<Rightarrow>
                     (case dataloader_class name of
                        Inl e \<Rightarrow> (Failed e, w)
                      | Inr c \<Rightarrow>
                          (let w1 = snd (setitem ''dataloader''
                                           (Loader (DataLoader c (param_grid_of selected))) w);
                               w2 = snd (emit SpinnerShown w1)
                           in with_loader w2 (\<lambda>l. (Awaiting (GetOddsTypes l) K_select_filter, w2))))))
             else
               finish (emit (Notify ''Please select at least one row of filter table.'') w)))"

definition select_filter_resume :: "string list \<Rightarrow> stmt" where
  "select_filter_resume odds_types =
     steps
       [setitem ''odds_types'' (Strs odds_types),
        emit SpinnerHidden,
        with_item ''odds_types'' (\<lambda>v.
          case v of
            Strs ts \<Rightarrow> setitem ''odds_types_mapping'' (OddsMapping (odds_types_mapping_of ts))
          | _ \<Rightarrow> raise TypeError),
        add_no_odds,
        create_extraction_ui,
        create_control_ui,
        set_buttons_visibility 2,
        add_props ''filter_ui'' ''disabled'']"

subsection \<open>\<^verbatim>\<open>select_extraction\<close>\<close>

definition opt_frame_val :: "frame option \<Rightarrow> val" where
  "opt_frame_val f = (case f of None \<Rightarrow> PyNone | Some fr \<Rightarrow> Frame fr)"

text \<open>
  Up to the first \<^verbatim>\<open>await\<close>. The worker reads the dataloader, the odds type and the
  threshold out of \<^verbatim>\<open>state\<close>; a failure there is raised by the \<^verbatim>\<open>await\<close>.
\<close>

definition select_extraction :: "world \<Rightarrow> outcome \<times> world" where
  "select_extraction w =
     (let w1 = snd (emit SpinnerShown w) in
      with_loader w1 (\<lambda>l.
        case map_of (state w1) ''odds_type_ui'' of
          None \<Rightarrow> (Failed (KeyError ''odds_type_ui''), w1)
        | Some ov \<Rightarrow>
          (case choice_value ov of
             Inl e \<Rightarrow> (Failed e, w1)
           | Inr odds_type \<Rightarrow>
             (case map_of (state w1) ''drop_na_thres_ui'' of
                None \<Rightarrow> (Failed (KeyError ''drop_na_thres_ui''), w1)
              | Some tv \<Rightarrow>
                (case number_value tv of
                   Inl e \<Rightarrow> (Failed e, w1)
                 | Inr drop_na_thres \<Rightarrow>
                     (Awaiting (ExtractTrainData l odds_type drop_na_thres)
                        K_select_extraction_train, w1))))))"

text \<open>
  Between the two \<^verbatim>\<open>await\<close>s: the training tables are stored, then the fixtures are
  requested.
\<close>

definition select_extraction_train :: "frame \<Rightarrow> frame \<Rightarrow> frame option \<Rightarrow> world \<Rightarrow> outcome \<times> world" where
  "select_extraction_train x y od w =
     (case steps [setitem ''X_train'' (Frame x), setitem ''Y_train'' (Frame y),
                  setitem ''O_train'' (opt_frame_val od)] w of
        (Some e, w1) \<Rightarrow> (Failed e, w1)
      | (None, w1) \<Rightarrow>
          with_loader w1 (\<lambda>l. (Awaiting (ExtractFixturesData l) K_select_extraction_fixtures, w1)))"

definition select_extraction_fixtures :: "frame \<Rightarrow> frame option \<Rightarrow> frame option \<Rightarrow> stmt" where
  "select_extraction_fixtures x y od =
     steps
       [setitem ''X_fix'' (Frame x),
        setitem ''Y_fix'' (opt_frame_val y),
        setitem ''O_fix'' (opt_frame_val od),
        emit SpinnerHidden,
        create_data_ui,
        create_control_ui,
        set_buttons_visibility 3,
        set_enabled ''odds_type_ui'' False,
        set_enabled ''drop_na_thres_ui'' False]"

subsection \<open>\<^verbatim>\<open>select_download\<close>\<close>

text \<open>
  \<^verbatim>\<open>save\<close> is a method of the external dataloader: the bytes it writes are a
  parameter. The file written to the temporary directory is read back and handed to
  \<^verbatim>\<open>ui.download\<close>.
\<close>

definition select_download :: "(loader \<Rightarrow> exn + string) \<Rightarrow> stmt" where
  "select_download save =
     with_item ''dataloader'' (\<lambda>v.
       case v of
         Loader l \<Rightarrow> (case save l of Inl e \<Rightarrow> raise e
                      | Inr bytes \<Rightarrow> emit (Download bytes ''dataloader.pkl''))
       | _ \<Rightarrow> raise (AttributeError ''save''))"

subsection \<open>\<^verbatim>\<open>_gui.py\<close>\<close>

definition select_mode :: stmt where
  "select_mode =
     with_mode (\<lambda>m w.
       if m = Some ''Data'' \<and> \<not> has_key ''sport_ui'' w
       then steps [create_sport_ui, create_control_ui, create_cancel_ui,
                   set_buttons_visibility 0] w
       else skip w)"

text \<open>The loop over \<^verbatim>\<open>state.copy()\<close>: the keys present when the loop starts.\<close>

definition select_cancel :: stmt where
  "select_cancel w =
     steps
       (map (\<lambda>key. if key \<noteq> ''mode_ui'' then pop key else skip) (map fst (state w))
        @ [create_mode_ui, create_sport_ui, create_filter_ui, create_extraction_ui,
           create_data_ui, create_control_ui, create_cancel_ui]) w"

text \<open>What \<^verbatim>\<open>main\<close> builds before the page is served.\<close>

definition empty_world :: world where
  "empty_world = \<lparr>state = [], effects = []\<rparr>"

definition main :: "exn option \<times> world" where
  "main =
     steps [create_mode_ui, create_sport_ui, create_filter_ui, create_extraction_ui,
            create_control_ui, create_cancel_ui, create_data_ui] empty_world"


section \<open>The monolithic variant: \<^verbatim>\<open>app.py\<close>\<close>

text \<open>
  The bodies of \<^verbatim>\<open>select_sport\<close>, \<^verbatim>\<open>select_filter\<close> and \<^verbatim>\<open>select_extraction\<close> up to
  their \<^verbatim>\<open>await\<close>s, and the storing of the training tables, are the same text in both
  variants; only what follows the \<^verbatim>\<open>await\<close> differs. \<open>to_app\<close> sends a waiting handler
  to the continuation of \<^verbatim>\<open>app.py\<close>.
\<close>

fun app_cont :: "cont \<Rightarrow> cont" where
  "app_cont K_select_sport = K_app_select_sport"
| "app_cont K_select_filter = K_app_select_filter"
| "app_cont K_select_extraction_train = K_app_select_extraction_train"
| "app_cont K_select_extraction_fixtures = K_app_select_extraction_fixtures"
| "app_cont k = k"

fun to_app :: "outcome \<times> world \<Rightarrow> outcome \<times> world" where
  "to_app (Awaiting q k, w) = (Awaiting q (app_cont k), w)"
| "to_app r = r"

definition app_create_sport_ui :: stmt where
  "app_create_sport_ui =
     setitem ''sport_ui'' (Radio (new_attrs\<lparr>props := [''inline'']\<rparr>) (map fst DATALOADERS) None)"

definition app_create_filter_ui :: stmt where
  "app_create_filter_ui w =
     (if has_key ''all_params'' w
      then with_item ''all_params'' (\<lambda>v.
             case v of
               Dicts all_params \<Rightarrow>
                 (case all_params of
                    [] \<Rightarrow> raise StopIteration
                  | param # _ \<Rightarrow>
                      setitem ''filter_ui''
                        (Table new_attrs None
                           ([id_column] @ map param_column (map fst param))
                           (filter_rows_of all_params) []))
             | _ \<Rightarrow> raise TypeError) w
      else skip w)"

definition app_create_extraction_ui :: stmt where
  "app_create_extraction_ui w =
     (if has_key ''odds_types'' w
      then with_item ''odds_types'' (\<lambda>v.
             case v of
               Strs odds_types \<Rightarrow>
                 (case first_odds_type odds_types of
                    Inl e \<Rightarrow> raise e
                  | Inr t \<Rightarrow>
                      steps
                        [setitem ''odds_type_ui''
                           (Select new_attrs (odds_types_mapping_of odds_types) (Some t)),
                         setitem ''drop_na_thres_ui'' (Number new_attrs (Some 0))])
             | _ \<Rightarrow> raise TypeError) w
      else skip w)"

text \<open>
  The tables of \<^verbatim>\<open>create_data_ui\<close> in \<^verbatim>\<open>app.py\<close> are not stored in \<^verbatim>\<open>state\<close>; what
  remains is where building them raises (the odds columns are read without a test for
  \<^verbatim>\<open>None\<close>).
\<close>

definition app_create_data_ui :: stmt where
  "app_create_data_ui w =
     (if has_key ''X_train'' w
      then steps
             [with_frame ''X_train'' (\<lambda>x. skip),
              with_frame ''Y_train'' (\<lambda>y. skip),
              with_frame ''O_train'' (\<lambda>od. skip),
              with_frame ''X_fix'' (\<lambda>x. skip),
              with_frame ''Y_train'' (\<lambda>y. skip),
              with_frame ''O_fix'' (\<lambda>od. skip)] w
      else skip w)"

text \<open>The buttons at the end of \<^verbatim>\<open>create_control_ui\<close>.\<close>

definition app_create_control_ui :: stmt where
  "app_create_control_ui =
     steps
       [setitem ''arrow_sport_ui'' (Button new_attrs),
        setitem ''arrow_filter_ui'' (Button new_attrs),
        setitem ''arrow_extraction_ui'' (Button new_attrs),
        setitem ''download_ui'' (Button new_attrs),
        set_visibility ''arrow_filter_ui'' False,
        set_visibility ''arrow_extraction_ui'' False,
        set_visibility ''download_ui'' False]"

definition app_select_sport :: "world \<Rightarrow> outcome \<times> world" where
  "app_select_sport w = to_app (select_sport w)"

definition app_select_sport_resume :: "row list \<Rightarrow> stmt" where
  "app_select_sport_resume all_params =
     steps
       [setitem ''all_params'' (Dicts all_params),
        emit SpinnerHidden,
        app_create_filter_ui,
        set_visibility ''arrow_sport_ui'' False,
        set_visibility ''arrow_filter_ui'' True,
        set_enabled ''sport_ui'' False]"

definition app_select_filter :: "world \<Rightarrow> outcome \<times> world" where
  "app_select_filter w = to_app (select_filter w)"

definition app_select_filter_resume :: "string list \<Rightarrow> stmt" where
  "app_select_filter_resume odds_types =
     steps
       [setitem ''odds_types'' (Strs odds_types),
        emit SpinnerHidden,
        app_create_extraction_ui,
        set_visibility ''arrow_filter_ui'' False,
        set_visibility ''arrow_extraction_ui'' True,
        add_props ''filter_ui'' ''disabled'']"

definition app_select_extraction :: "world \<Rightarrow> outcome \<times> world" where
  "app_select_extraction w = to_app (select_extraction w)"

definition app_select_extraction_train ::
  "frame \<Rightarrow> frame \<Rightarrow> frame option \<Rightarrow> world \<Rightarrow> outcome \<times> world" where
  "app_select_extraction_train x y od w = to_app (select_extraction_train x y od w)"

definition app_select_extraction_fixtures :: "frame \<Rightarrow> frame option \<Rightarrow> frame option \<Rightarrow> stmt" where
  "app_select_extraction_fixtures x y od =
     steps
       [setitem ''X_fix'' (Frame x),
        setitem ''Y_fix'' (opt_frame_val y),
        setitem ''O_fix'' (opt_frame_val od),
        emit SpinnerHidden,
        app_create_data_ui,
        set_visibility ''arrow_extraction_ui'' False,
        add_props ''odds_type_ui'' ''disabled'',
        set_enabled ''drop_na_thres_ui'' False,
        set_visibility ''download_ui'' True]"

definition download_data :: "(loader \<Rightarrow> exn + string) \<Rightarrow> stmt" where
  "download_data save = select_download save"

text \<open>\<^verbatim>\<open>key.startswith(p)\<close> and \<^verbatim>\<open>key in s\<close> (a test for a substring).\<close>

definition starts_with :: "string \<Rightarrow> string \<Rightarrow> bool" where
  "starts_with p key = (take (length p) key = p)"

definition is_substring :: "string \<Rightarrow> string \<Rightarrow> bool" where
  "is_substring key s = list_ex (\<lambda>i. take (length key) (drop i s) = key) [0..<Suc (length s)]"

definition refresh_ui_key :: "string \<Rightarrow> stmt" where
  "refresh_ui_key key =
     (if \<not> (starts_with ''arrow'' key \<or> starts_with ''download'' key)
         \<and> \<not> is_substring key ''sport_ui''
      then pop key
      else steps
             [set_visibility ''arrow_sport_ui'' True,
              set_visibility ''arrow_filter_ui'' False,
              set_visibility ''arrow_extraction_ui'' False,
              set_visibility ''download_ui'' False,
              set_enabled ''sport_ui'' True,
              set_value ''sport_ui'' None])"

definition refresh_ui :: stmt where
  "refresh_ui w =
     steps
       (map refresh_ui_key (map fst (state w))
        @ [app_create_filter_ui, app_create_filter_ui, app_create_extraction_ui,
           app_create_data_ui]) w"

text \<open>What loading the module builds.\<close>

definition app_main :: "exn option \<times> world" where
  "app_main =
     steps [app_create_sport_ui, app_create_filter_ui, app_create_extraction_ui,
            app_create_control_ui, app_create_data_ui] empty_world"

section \<open>The event loop\<close>

text \<open>
  The interaction runs on one thread. A click runs a handler up to its first \<^verbatim>\<open>await\<close>;
  the call then runs in the worker pool and the handler waits in \<open>pending\<close>; a reply
  resumes one waiting handler up to its next \<^verbatim>\<open>await\<close> or its end. An exception that
  leaves a handler is reported and the loop goes on.
\<close>

record sys =
  current :: world
  pending :: "(request \<times> cont) list"

datatype event =
    ClickSport
  | ClickFilter
  | ClickExtraction
  | ClickDownload
  | ClickCancel
  | UserMode string
  | UserSport string
  | UserRows "row list"
  | UserOdds "string option"
  | UserThres "real option"
  | Reply nat "exn + response"

fun resume :: "cont \<Rightarrow> exn + response \<Rightarrow> world \<Rightarrow> outcome \<times> world" where
  "resume k (Inl e) w = (Failed e, w)"
| "resume K_select_sport (Inr (Params ps)) w = finish (select_sport_resume ps w)"
| "resume K_select_filter (Inr (OddsTypes ts)) w = finish (select_filter_resume ts w)"
| "resume K_select_extraction_train (Inr (TrainData x y od)) w = select_extraction_train x y od w"
| "resume K_select_extraction_fixtures (Inr (FixturesData x y od)) w =
     finish (select_extraction_fixtures x y od w)"
| "resume K_app_select_sport (Inr (Params ps)) w = finish (app_select_sport_resume ps w)"
| "resume K_app_select_filter (Inr (OddsTypes ts)) w = finish (app_select_filter_resume ts w)"
| "resume K_app_select_extraction_train (Inr (TrainData x y od)) w =
     app_select_extraction_train x y od w"
| "resume K_app_select_extraction_fixtures (Inr (FixturesData x y od)) w =
     finish (app_select_extraction_fixtures x y od w)"
| "resume k (Inr r) w = (Failed TypeError, w)"

definition settle :: "sys \<Rightarrow> outcome \<times> world \<Rightarrow> sys" where
  "settle s r =
     (case r of
        (Finished, w) \<Rightarrow> s\<lparr>current := w\<rparr>
      | (Failed e, w) \<Rightarrow> s\<lparr>current := snd (emit (Uncaught e) w)\<rparr>
      | (Awaiting q k, w) \<Rightarrow> s\<lparr>current := w, pending := pending s @ [(q, k)]\<rparr>)"

text \<open>An element the user can act on: present, visible, enabled and not disabled by a prop.\<close>

definition interactive :: "string \<Rightarrow> world \<Rightarrow> bool" where
  "interactive k w =
     (case map_of (state w) k of
        None \<Rightarrow> False
      | Some v \<Rightarrow> (case get_attrs v of
                     None \<Rightarrow> False
                   | Some a \<Rightarrow> visible a \<and> enabled a \<and> ''disabled'' \<notin> set (props a)))"

definition click :: "string \<Rightarrow> (world \<Rightarrow> outcome \<times> world) \<Rightarrow> sys \<Rightarrow> sys" where
  "click k handler s = (if interactive k (current s) then settle s (handler (current s)) else s)"

text \<open>The user picks a value of a toggle, a radio or a select.\<close>

definition user_choice :: "string \<Rightarrow> string option \<Rightarrow> world \<Rightarrow> world" where
  "user_choice k x w =
     (if interactive k w
      then (case map_of (state w) k of
              Some (Toggle a os v) \<Rightarrow>
                (if x \<in> Some ` set os then snd (setitem k (Toggle a os x) w) else w)
            | Some (Radio a os v) \<Rightarrow>
                (if x \<in> Some ` set os then snd (setitem k (Radio a os x) w) else w)
            | Some (Select a os v) \<Rightarrow>
                (if x \<in> fst ` set os then snd (setitem k (Select a os x) w) else w)
            | _ \<Rightarrow> w)
      else w)"

definition user_rows :: "row list \<Rightarrow> world \<Rightarrow> world" where
  "user_rows sel w =
     (if interactive ''filter_ui'' w
      then (case map_of (state w) ''filter_ui'' of
              Some (Table a t cs rs old) \<Rightarrow>
                snd (setitem ''filter_ui'' (Table a t cs rs (filter (\<lambda>r. r \<in> set rs) sel)) w)
            | _ \<Rightarrow> w)
      else w)"

definition user_number :: "real option \<Rightarrow> world \<Rightarrow> world" where
  "user_number x w =
     (if interactive ''drop_na_thres_ui'' w
      then (case map_of (state w) ''drop_na_thres_ui'' of
              Some (Number a v) \<Rightarrow> snd (setitem ''drop_na_thres_ui'' (Number a x) w)
            | _ \<Rightarrow> w)
      else w)"

definition reply :: "nat \<Rightarrow> exn + response \<Rightarrow> sys \<Rightarrow> sys" where
  "reply i r s =
     (if i < length (pending s)
      then settle (s\<lparr>pending := take i (pending s) @ drop (Suc i) (pending s)\<rparr>)
                  (resume (snd (pending s ! i)) r (current s))
      else s)"

text \<open>The modular variant. Changing the mode toggle fires \<^verbatim>\<open>select_mode\<close>.\<close>

fun step :: "(loader \<Rightarrow> exn + string) \<Rightarrow> event \<Rightarrow> sys \<Rightarrow> sys" where
  "step save ClickSport s = click ''arrow_sport_ui'' select_sport s"
| "step save ClickFilter s = click ''arrow_filter_ui'' select_filter s"
| "step save ClickExtraction s = click ''arrow_extraction_ui'' select_extraction s"
| "step save ClickDownload s = click ''download_ui'' (\<lambda>w. finish (select_download save w)) s"
| "step save ClickCancel s = click ''cancel_ui'' (\<lambda>w. finish (select_cancel w)) s"
| "step save (UserMode m) s =
     (let w = user_choice ''mode_ui'' (Some m) (current s)
      in if state w = state (current s) then s else settle s (finish (select_mode w)))"
| "step save (UserSport x) s = s\<lparr>current := user_choice ''sport_ui'' (Some x) (current s)\<rparr>"
| "step save (UserRows sel) s = s\<lparr>current := user_rows sel (current s)\<rparr>"
| "step save (UserOdds x) s = s\<lparr>current := user_choice ''odds_type_ui'' x (current s)\<rparr>"
| "step save (UserThres x) s = s\<lparr>current := user_number x (current s)\<rparr>"
| "step save (Reply i r) s = reply i r s"

text \<open>
  The monolithic variant. Its mode toggle and its cancel button are not stored in
  \<^verbatim>\<open>state\<close>: the toggle has no callback and the cancel button is always there.
\<close>

fun app_step :: "(loader \<Rightarrow> exn + string) \<Rightarrow> event \<Rightarrow> sys \<Rightarrow> sys" where
  "app_step save ClickSport s = click ''arrow_sport_ui'' app_select_sport s"
| "app_step save ClickFilter s = click ''arrow_filter_ui'' app_select_filter s"
| "app_step save ClickExtraction s = click ''arrow_extraction_ui'' app_select_extraction s"
| "app_step save ClickDownload s = click ''download_ui'' (\<lambda>w. finish (download_data save w)) s"
| "app_step save ClickCancel s = settle s (finish (refresh_ui (current s)))"
| "app_step save (UserMode m) s = s"
| "app_step save (UserSport x) s = s\<lparr>current := user_choice ''sport_ui'' (Some x) (current s)\<rparr>"
| "app_step save (UserRows sel) s = s\<lparr>current := user_rows sel (current s)\<rparr>"
| "app_step save (UserOdds x) s = s\<lparr>current := user_choice ''odds_type_ui'' x (current s)\<rparr>"
| "app_step save (UserThres x) s = s\<lparr>current := user_number x (current s)\<rparr>"
| "app_step save (Reply i r) s = reply i r s"

definition run :: "(loader \<Rightarrow> exn + string) \<Rightarrow> event list \<Rightarrow> sys \<Rightarrow> sys" where
  "run save evs s = foldl (\<lambda>s ev. step save ev s) s evs"

definition app_run :: "(loader \<Rightarrow> exn + string) \<Rightarrow> event list \<Rightarrow> sys \<Rightarrow> sys" where
  "app_run save evs s = foldl (\<lambda>s ev. app_step save ev s) s evs"

definition start :: sys where
  "start = \<lparr>current = snd main, pending = []\<rparr>"

definition app_start :: sys where
  "app_start = \<lparr>current = snd app_main, pending = []\<rparr>"


section \<open>Properties of statements and worlds\<close>

text \<open>A statement that leaves the entry of \<^verbatim>\<open>state\<close> under \<open>k\<close> as it was, whether it raises or not.\<close>

definition keeps :: "string \<Rightarrow> (world \<Rightarrow> 'a \<times> world) \<Rightarrow> bool" where
  "keeps k f = (\<forall>w. map_of (state (snd (f w))) k = map_of (state w) k)"

text \<open>A statement that preserves a property of the world, whether it raises or not.\<close>

definition pres :: "(world \<Rightarrow> bool) \<Rightarrow> (world \<Rightarrow> 'a \<times> world) \<Rightarrow> bool" where
  "pres P f = (\<forall>w. P w \<longrightarrow> P (snd (f w)))"

text \<open>The keys of \<^verbatim>\<open>state\<close> are distinct, as the keys of a dictionary are.\<close>

definition wf :: "world \<Rightarrow> bool" where
  "wf w = distinct (map fst (state w))"

text \<open>Exactly the \<open>i\<close>-th of the four control buttons is visible.\<close>

definition one_visible :: "nat \<Rightarrow> world \<Rightarrow> bool" where
  "one_visible i w =
     list_all (\<lambda>j. case map_of (state w) (buttons_ui ! j) of
                      Some (Button a) \<Rightarrow> visible a = (j = i)
                    | _ \<Rightarrow> False)
              [0..<length buttons_ui]"

definition buttons_present :: "world \<Rightarrow> bool" where
  "buttons_present w =
     list_all (\<lambda>k. case map_of (state w) k of Some (Button a) \<Rightarrow> True | _ \<Rightarrow> False) buttons_ui"

definition some_visible :: "world \<Rightarrow> bool" where
  "some_visible w = list_ex (\<lambda>i. one_visible i w) [0..<length buttons_ui]"

text \<open>The keys that the loop of \<^verbatim>\<open>refresh_ui\<close> removes.\<close>

definition popped :: "string \<Rightarrow> bool" where
  "popped key =
     (\<not> (starts_with ''arrow'' key \<or> starts_with ''download'' key)
      \<and> \<not> is_substring key ''sport_ui'')"

text \<open>
  The shape of \<^verbatim>\<open>state\<close> in \<^verbatim>\<open>app.py\<close>: the sport radio and the four buttons, built when
  the module is loaded, come first; every other key is one that \<^verbatim>\<open>refresh_ui\<close> removes.
\<close>

definition app_controls :: "bool \<Rightarrow> string option \<Rightarrow> bool \<Rightarrow> bool \<Rightarrow> bool \<Rightarrow> bool \<Rightarrow> (string \<times> val) list" where
  "app_controls e x b1 b2 b3 b4 =
     [(''sport_ui'', Radio \<lparr>visible = True, enabled = e, props = [''inline'']\<rparr> (map fst DATALOADERS) x),
      (''arrow_sport_ui'', Button \<lparr>visible = b1, enabled = True, props = []\<rparr>),
      (''arrow_filter_ui'', Button \<lparr>visible = b2, enabled = True, props = []\<rparr>),
      (''arrow_extraction_ui'', Button \<lparr>visible = b3, enabled = True, props = []\<rparr>),
      (''download_ui'', Button \<lparr>visible = b4, enabled = True, props = []\<rparr>)]"

definition app_inv :: "world \<Rightarrow> bool" where
  "app_inv w =
     (\<exists>e x b1 b2 b3 b4 rest.
        state w = app_controls e x b1 b2 b3 b4 @ rest
        \<and> distinct (map fst rest) \<and> (\<forall>k \<in> set (map fst rest). popped k))"

subsection \<open>Scenarios\<close>

definition demo_params :: "row list" where
  "demo_params = [[(''league'', SStr ''E0'')], [(''league'', SStr ''E1'')]]"

definition demo_save :: "loader \<Rightarrow> exn + string" where
  "demo_save l = Inr ''pickle''"

definition demo_frame :: frame where
  "demo_frame = DataFrame [''home__goals''] [[(''home__goals'', SInt 1)]]"

text \<open>The mode is chosen, Soccer is picked and the sport button is pressed: one call is pending.\<close>

definition at_sport :: sys where
  "at_sport = run demo_save [UserMode ''Data'', UserSport ''Soccer'', ClickSport] start"

text \<open>The parameters have arrived and the second row of the filter table is selected.\<close>

definition at_filter :: sys where
  "at_filter = run demo_save [Reply 0 (Inr (Params demo_params)),
                             UserRows [[(''league'', SStr ''E1''), (''id'', SInt 2)]]] at_sport"

text \<open>The odds types have arrived: the extraction controls are shown.\<close>

definition at_extraction :: sys where
  "at_extraction = run demo_save [ClickFilter, Reply 0 (Inr (OddsTypes [''market_average'']))] at_filter"

text \<open>The same steps in \<^verbatim>\<open>app.py\<close>.\<close>

definition app_at_filter :: sys where
  "app_at_filter =
     app_run demo_save [UserSport ''Soccer'', ClickSport, Reply 0 (Inr (Params demo_params)),
                        UserRows [[(''league'', SStr ''E1''), (''id'', SInt 2)]]] app_start"

definition app_at_extraction :: sys where
  "app_at_extraction =
     app_run demo_save [ClickFilter, Reply 0 (Inr (OddsTypes [''market_average'']))] app_at_filter"



section \<open>Lemmas on statements\<close>

subsection \<open>Sequencing\<close>

lemma steps_single [simp]: "steps [f] w = f w"
  by (cases "f w") (auto split: option.splits)

lemma steps_Cons2 [simp]:
  "steps (f # g # gs) w =
     (case f w of (None, w') \<Rightarrow> steps (g # gs) w' | (Some e, w') \<Rightarrow> (Some e, w'))"
  by simp

lemma steps_Cons: 
  "steps (f # fs) w = (case f w of (None, w') \<Rightarrow> steps fs w' | (Some e, w') \<Rightarrow> (Some e, w'))"
  by simp

declare steps.simps(2) [simp del]

lemma steps_append:
  "steps (fs @ gs) w =
     (case steps fs w of (None, w') \<Rightarrow> steps gs w' | (Some e, w') \<Rightarrow> (Some e, w'))"
proof (induction fs arbitrary: w)
  case Nil
  show ?case by simp
next
  case (Cons f fs)
  show ?case
    by (cases "f w") (auto simp: steps_Cons Cons.IH split: option.splits)
qed

subsection \<open>Frame lemmas\<close>

lemma keepsD: "keeps k f \<Longrightarrow> map_of (state (snd (f w))) k = map_of (state w) k"
  by (simp add: keeps_def)

lemma keeps_skip [simp]: "keeps k skip"
  by (simp add: keeps_def skip_def)

lemma keeps_raise [simp]: "keeps k (raise e)"
  by (simp add: keeps_def raise_def)

lemma keeps_emit [simp]: "keeps k (emit x)"
  by (simp add: keeps_def emit_def)

lemma keeps_setitem [simp]: "k \<noteq> k' \<Longrightarrow> keeps k (setitem k' v)"
  by (simp add: keeps_def setitem_def update_conv')

lemma keeps_pop [simp]: "k \<noteq> k' \<Longrightarrow> keeps k (pop k')"
  by (simp add: keeps_def pop_def delete_conv')

lemma keeps_with_item [simp]: "(\<And>v. keeps k (f v)) \<Longrightarrow> keeps k (with_item k' f)"
  by (simp add: keeps_def with_item_def split: option.splits)

lemma keeps_steps: "(\<And>f. f \<in> set fs \<Longrightarrow> keeps k f) \<Longrightarrow> keeps k (steps fs)"
proof (induction fs)
  case Nil
  show ?case by (simp add: keeps_def)
next
  case (Cons f fs)
  have f: "keeps k f" and r: "keeps k (steps fs)"
    using Cons by simp_all
  show ?case
    unfolding keeps_def
  proof
    fix w
    obtain e w' where fw: "f w = (e, w')" by (cases "f w")
    have "map_of (state w') k = map_of (state w) k"
      using keepsD [OF f, of w] fw by simp
    then show "map_of (state (snd (steps (f # fs) w))) k = map_of (state w) k"
      using fw keepsD [OF r, of w'] by (cases e) (simp_all add: steps_Cons)
  qed
qed

lemma keeps_update_attrs [simp]: "k \<noteq> k' \<Longrightarrow> keeps k (update_attrs k' m f)"
  by (simp add: update_attrs_def split: option.splits)

lemma keeps_set_visibility [simp]: "k \<noteq> k' \<Longrightarrow> keeps k (set_visibility k' b)"
  by (simp add: set_visibility_def)

lemma keeps_set_enabled [simp]: "k \<noteq> k' \<Longrightarrow> keeps k (set_enabled k' b)"
  by (simp add: set_enabled_def)

lemma keeps_add_props [simp]: "k \<noteq> k' \<Longrightarrow> keeps k (add_props k' p)"
  by (simp add: add_props_def)

lemma keeps_with_mode [simp]: "(\<And>m. keeps k (f m)) \<Longrightarrow> keeps k (with_mode f)"
  by (simp add: with_mode_def split: sum.splits)

lemma keeps_if_world: "keeps k f \<Longrightarrow> keeps k g \<Longrightarrow> keeps k (\<lambda>w. if c w then f w else g w)"
  by (simp add: keeps_def)

lemma keeps_with_frame [simp]: "(\<And>v. keeps k (f v)) \<Longrightarrow> keeps k (with_frame k' f)"
  by (simp add: with_frame_def split: val.splits)

lemma keeps_with_opt_frame [simp]: "(\<And>v. keeps k (f v)) \<Longrightarrow> keeps k (with_opt_frame k' f)"
  by (simp add: with_opt_frame_def split: val.splits)

lemma keeps_create_filter_ui: "k \<noteq> ''filter_ui'' \<Longrightarrow> keeps k create_filter_ui"
  unfolding create_filter_ui_def
  by (intro keeps_with_mode keeps_if_world keeps_with_item) (simp_all split: val.splits)

lemma keeps_create_control_ui: "k \<notin> set buttons_ui \<Longrightarrow> keeps k create_control_ui"
  unfolding create_control_ui_def
  by (intro keeps_with_mode) (auto simp: buttons_ui_def intro!: keeps_steps)

lemma keeps_set_buttons_visibility: "k \<notin> set buttons_ui \<Longrightarrow> keeps k (set_buttons_visibility i)"
  unfolding set_buttons_visibility_def
  by (rule keeps_steps) (auto simp: buttons_ui_def)

lemma keeps_create_extraction_ui:
  "k \<noteq> ''odds_type_ui'' \<Longrightarrow> k \<noteq> ''drop_na_thres_ui'' \<Longrightarrow> keeps k create_extraction_ui"
  unfolding create_extraction_ui_def
  by (intro keeps_with_mode keeps_if_world keeps_steps)
     (auto split: val.splits sum.splits)

lemma keeps_create_data_ui:
  "k \<notin> {''X_train_ui'', ''Y_train_ui'', ''O_train_ui'', ''X_fix_ui'', ''Y_fix_ui'', ''O_fix_ui''}
   \<Longrightarrow> keeps k create_data_ui"
  unfolding create_data_ui_def
  by (intro keeps_with_mode keeps_if_world keeps_steps) auto

section \<open>The filter rows\<close>

lemma length_filter_rows_of: "length (filter_rows_of ps) = length ps"
  by (simp add: filter_rows_of_def)

lemma nth_filter_rows_of:
  "i < length ps \<Longrightarrow> filter_rows_of ps ! i = AList.update ''id'' (SInt (int i + 1)) (ps ! i)"
  by (simp add: filter_rows_of_def nth_enumerate_eq)

lemma ids_filter_rows_of:
  "map (\<lambda>r. map_of r ''id'') (filter_rows_of ps)
     = map (\<lambda>n. Some (SInt (int n))) [1..<Suc (length ps)]"
  by (rule nth_equalityI)
     (simp_all add: length_filter_rows_of nth_filter_rows_of update_conv' nth_upt del: upt_Suc)

lemma filter_rows_written:
  assumes "all_params \<noteq> []"
  shows "map_of (state (snd (select_sport_resume all_params w))) ''filter_rows''
           = Some (Dicts (filter_rows_of all_params))"
proof -
  obtain p ps where ap: "all_params = p # ps"
    using assms by (cases all_params) auto
  define w1 where
    "w1 = snd (steps [emit SpinnerHidden, setitem ''filter_columns'' (Dicts [id_column]),
                      extend_item ''filter_columns'' (map param_column (map fst p)),
                      setitem ''filter_rows'' (Dicts (filter_rows_of all_params))] w)"
  have w1: "map_of (state w1) ''filter_rows'' = Some (Dicts (filter_rows_of all_params))"
    by (simp add: w1_def emit_def setitem_def extend_item_def with_item_def update_conv')
  have rest: "keeps ''filter_rows''
                (steps [create_filter_ui, create_control_ui, set_buttons_visibility 1,
                        set_enabled ''sport_ui'' False])"
    by (rule keeps_steps)
       (auto simp: keeps_create_filter_ui keeps_create_control_ui keeps_set_buttons_visibility
                   buttons_ui_def)
  have "select_sport_resume all_params w
          = steps [create_filter_ui, create_control_ui, set_buttons_visibility 1,
                   set_enabled ''sport_ui'' False] w1"
    by (simp add: select_sport_resume_def ap w1_def emit_def setitem_def extend_item_def
                  with_item_def update_conv')
  then show ?thesis
    using keepsD [OF rest, of w1] w1 by simp
qed

lemma app_filter_rows:
  assumes "map_of (state w) ''all_params'' = Some (Dicts all_params)" and "all_params \<noteq> []"
  shows "\<exists>cols. map_of (state (snd (app_create_filter_ui w))) ''filter_ui''
            = Some (Table new_attrs None cols (filter_rows_of all_params) [])"
proof -
  obtain p ps where ap: "all_params = p # ps"
    using assms(2) by (cases all_params) auto
  show ?thesis
    using assms(1)
    by (simp add: app_create_filter_ui_def has_key_def with_item_def setitem_def update_conv' ap)
qed

text \<open>
  C4. For a fetched sequence of \<open>n\<close> parameter records, the filter rows are \<open>n\<close> rows in
  input order; row \<open>i\<close> (counted from 0) is record \<open>i\<close> with the key \<^verbatim>\<open>id\<close> set to
  \<open>i + 1\<close>, every other key of the record unchanged, so the ids are the sequence
  \<open>1, \<dots>, n\<close>. These rows are what \<^verbatim>\<open>select_sport\<close> stores under \<^verbatim>\<open>filter_rows\<close> and what
  \<^verbatim>\<open>create_filter_ui\<close> of \<^verbatim>\<open>app.py\<close> gives to the filter table, whenever the sequence is
  not empty.
\<close>

theorem filter_rows_dense_ids:
  "length (filter_rows_of all_params) = length all_params
   \<and> (\<forall>i < length all_params.
        filter_rows_of all_params ! i = AList.update ''id'' (SInt (int i + 1)) (all_params ! i)
        \<and> map_of (filter_rows_of all_params ! i) ''id'' = Some (SInt (int i + 1))
        \<and> (\<forall>k. k \<noteq> ''id'' \<longrightarrow>
              map_of (filter_rows_of all_params ! i) k = map_of (all_params ! i) k))
   \<and> map (\<lambda>r. map_of r ''id'') (filter_rows_of all_params)
       = map (\<lambda>n. Some (SInt (int n))) [1..<Suc (length all_params)]
   \<and> (all_params \<noteq> [] \<longrightarrow>
        map_of (state (snd (select_sport_resume all_params w))) ''filter_rows''
          = Some (Dicts (filter_rows_of all_params)))
   \<and> (all_params \<noteq> [] \<and> map_of (state w') ''all_params'' = Some (Dicts all_params) \<longrightarrow>
        (\<exists>cols. map_of (state (snd (app_create_filter_ui w'))) ''filter_ui''
            = Some (Table new_attrs None cols (filter_rows_of all_params) [])))"
  using length_filter_rows_of [of all_params] ids_filter_rows_of [of all_params]
    filter_rows_written [of all_params w] app_filter_rows [of w' all_params]
  by (simp add: nth_filter_rows_of update_conv')

theorem filter_rows_dense_ids_witness:
  "demo_params \<noteq> [] \<and> (1::nat) < length demo_params
   \<and> map_of (state (current app_at_filter)) ''all_params'' = Some (Dicts demo_params)
   \<and> filter_rows_of demo_params ! 1 = [(''league'', SStr ''E1''), (''id'', SInt 2)]
   \<and> map (\<lambda>r. map_of r ''id'') (filter_rows_of demo_params) = [Some (SInt 1), Some (SInt 2)]
   \<and> map_of (state (snd (select_sport_resume demo_params (current at_sport)))) ''filter_rows''
       = Some (Dicts [[(''league'', SStr ''E0''), (''id'', SInt 1)],
                      [(''league'', SStr ''E1''), (''id'', SInt 2)]])
   \<and> (\<exists>cols. map_of (state (snd (app_create_filter_ui (current app_at_filter)))) ''filter_ui''
         = Some (Table new_attrs None cols
                   [[(''league'', SStr ''E0''), (''id'', SInt 1)],
                    [(''league'', SStr ''E1''), (''id'', SInt 2)]] []))"
proof -
  have r: "filter_rows_of demo_params
     = [[(''league'', SStr ''E0''), (''id'', SInt 1)], [(''league'', SStr ''E1''), (''id'', SInt 2)]]"
    by code_simp
  have n: "demo_params \<noteq> []" "(1::nat) < length demo_params"
    by (simp_all add: demo_params_def)
  have a: "map_of (state (current app_at_filter)) ''all_params'' = Some (Dicts demo_params)"
    by code_simp
  show ?thesis
    using filter_rows_dense_ids [of demo_params "current at_sport" "current app_at_filter"] n r a
    by simp
qed

end
